theory Spec2Isabelle
  imports Complex_Main
begin

section \<open>Messages\<close>

text \<open>
  The messages the server sends, with the fields the program reads or writes.
  \<open>ros::Time\<close> is a count of clock units. The \<open>double\<close> values of the program are
  modelled as reals: the program copies and compares them and never rounds one.
\<close>

type_synonym time = nat

record Header =
  stamp :: time
  frame_id :: string

record Pose2D =
  pose_x :: real
  pose_y :: real
  pose_theta :: real

record MapMetaData =
  map_load_time :: time
  resolution :: real
  width :: nat
  height :: nat
  origin :: Pose2D

record OccupancyGrid =
  header :: Header
  info :: MapMetaData
  data :: "int list"

text \<open>\<open>nav_msgs::GetMap::Response\<close>: its only field is \<open>map\<close>.\<close>

record GetMap_Response =
  map_msg :: OccupancyGrid

definition empty_response :: GetMap_Response where
  "empty_response =
     \<lparr>map_msg = \<lparr>header = \<lparr>stamp = 0, frame_id = ''''\<rparr>,
                 info = \<lparr>map_load_time = 0, resolution = 0, width = 0, height = 0,
                         origin = \<lparr>pose_x = 0, pose_y = 0, pose_theta = 0\<rparr>\<rparr>,
                 data = []\<rparr>\<rparr>"

datatype MapMode = TRINARY | SCALE | RAW

section \<open>The YAML library\<close>

text \<open>
  yaml-cpp is an external library. \<open>MultimapServer\<close> uses \<open>as<T>()\<close> and
  \<open>const_iterator\<close>, so the program builds against the API of yaml-cpp 0.5 and later, where
  \<open>node >> x\<close> is \<open>x = node.as<T>()\<close> (lines 47-55). A document is a tree of nodes; the keys of
  a mapping are scalars. Looking up a key a mapping does not have gives an undefined node, and
  a conversion of a node that is not a scalar of the wanted type throws. The text-to-number
  conversions, the text a null node converts to (none in 0.5), the class of the exception a
  failed conversion throws and the message of an exception are parameters.
\<close>

datatype node =
    YUndefined
  | YNull
  | YScalar string
  | YSequence "node list"
  | YMap "(string \<times> node) list"

datatype yaml_exception =
    InvalidScalar
  | BadConversion
  | BadSubscript
  | InvalidNode
  | ParserException

record yaml_cpp =
  decode_double :: "string \<Rightarrow> real option"
  decode_int :: "string \<Rightarrow> int option"
  null_text :: "string option"
  conversion_failure :: yaml_exception
  what :: "yaml_exception \<Rightarrow> string"

text \<open>\<open>node[key]\<close> with a string key that is not a decimal numeral.\<close>

fun subscript :: "node \<Rightarrow> string \<Rightarrow> yaml_exception + node" where
  "subscript (YMap kvs) k = Inr (case map_of kvs k of Some n \<Rightarrow> n | None \<Rightarrow> YUndefined)"
| "subscript (YScalar s) k = Inl BadSubscript"
| "subscript n k = Inr YUndefined"

text \<open>
  \<open>node[i]\<close> with an integer key: the element of a sequence, or the value of the first key of
  a mapping that reads as the integer \<open>i\<close>.
\<close>

fun element :: "yaml_cpp \<Rightarrow> node \<Rightarrow> nat \<Rightarrow> yaml_exception + node" where
  "element L (YSequence xs) i = Inr (if i < length xs then xs ! i else YUndefined)"
| "element L (YMap kvs) i =
     Inr (case find (\<lambda>kv. decode_int L (fst kv) = Some (int i)) kvs of
            Some kv \<Rightarrow> snd kv | None \<Rightarrow> YUndefined)"
| "element L (YScalar s) i = Inl BadSubscript"
| "element L n i = Inr YUndefined"

fun as_string :: "yaml_cpp \<Rightarrow> node \<Rightarrow> yaml_exception + string" where
  "as_string L (YScalar s) = Inr s"
| "as_string L YNull =
     (case null_text L of Some s \<Rightarrow> Inr s | None \<Rightarrow> Inl (conversion_failure L))"
| "as_string L n = Inl (conversion_failure L)"

fun as_double :: "yaml_cpp \<Rightarrow> node \<Rightarrow> yaml_exception + real" where
  "as_double L (YScalar s) =
     (case decode_double L s of Some v \<Rightarrow> Inr v | None \<Rightarrow> Inl (conversion_failure L))"
| "as_double L n = Inl (conversion_failure L)"

fun as_int :: "yaml_cpp \<Rightarrow> node \<Rightarrow> yaml_exception + int" where
  "as_int L (YScalar s) =
     (case decode_int L s of Some v \<Rightarrow> Inr v | None \<Rightarrow> Inl (conversion_failure L))"
| "as_int L n = Inl (conversion_failure L)"

text \<open>\<open>doc[key] >> x\<close> and \<open>doc[key][i] >> x\<close>: the lookup, then the conversion.\<close>

definition get_string :: "yaml_cpp \<Rightarrow> node \<Rightarrow> string \<Rightarrow> yaml_exception + string" where
  "get_string L doc k = (case subscript doc k of Inl e \<Rightarrow> Inl e | Inr n \<Rightarrow> as_string L n)"

definition get_double :: "yaml_cpp \<Rightarrow> node \<Rightarrow> string \<Rightarrow> yaml_exception + real" where
  "get_double L doc k = (case subscript doc k of Inl e \<Rightarrow> Inl e | Inr n \<Rightarrow> as_double L n)"

definition get_int :: "yaml_cpp \<Rightarrow> node \<Rightarrow> string \<Rightarrow> yaml_exception + int" where
  "get_int L doc k = (case subscript doc k of Inl e \<Rightarrow> Inl e | Inr n \<Rightarrow> as_int L n)"

definition get_double_at :: "yaml_cpp \<Rightarrow> node \<Rightarrow> string \<Rightarrow> nat \<Rightarrow> yaml_exception + real" where
  "get_double_at L doc k i =
     (case subscript doc k of
        Inl e \<Rightarrow> Inl e
      | Inr n \<Rightarrow> (case element L n i of Inl e \<Rightarrow> Inl e | Inr m \<Rightarrow> as_double L m))"

text \<open>
  The pairs an iteration from \<open>begin()\<close> to \<open>end()\<close> visits. An iterator over a sequence has
  no \<open>first\<close> and \<open>second\<close>: both are nodes that nothing can be read from.
\<close>

fun entries :: "node \<Rightarrow> (node \<times> node) list" where
  "entries (YMap kvs) = map (\<lambda>kv. (YScalar (fst kv), snd kv)) kvs"
| "entries (YSequence xs) = map (\<lambda>x. (YUndefined, YUndefined)) xs"
| "entries n = []"

section \<open>\<open>dirname\<close>\<close>

text \<open>
  \<open>dirname\<close> of \<open>libgen.h\<close>: the path without its last component and without the
  slashes before it; \<open>.\<close> when the path has no directory part, \<open>/\<close> when only the
  root is left (\<open>//\<close> for exactly two leading slashes).
\<close>

definition strip_slashes :: "string \<Rightarrow> string" where
  "strip_slashes s = rev (dropWhile (\<lambda>c. c = CHR ''/'') (rev s))"

definition dirname :: "string \<Rightarrow> string" where
  "dirname path =
     (if CHR ''/'' \<notin> set path then ''.''
      else if strip_slashes path = [] then (if path = ''//'' then ''//'' else ''/'')
      else
        let d = rev (dropWhile (\<lambda>c. c \<noteq> CHR ''/'') (rev (strip_slashes path))) in
        if d = [] then ''.''
        else if strip_slashes d = [] then (if d = ''//'' then ''//'' else ''/'')
        else strip_slashes d)"

section \<open>The process and its effects\<close>

text \<open>
  What the process does to the outside is a trace of events: log lines, the endpoints it
  advertises, the messages it publishes, and the entry into \<open>ros::spin()\<close>. The state also
  counts the readings of the clock, so that two calls of \<open>ros::Time::now()\<close> may differ.
\<close>

datatype msg_type = MapMetaData_msg | OccupancyGrid_msg

datatype event =
    ROS_ERROR string
  | ROS_INFO string
  | ROS_INFO_Read nat nat real
  | ROS_DEBUG string
  | Cout string
  | AdvertiseService string
  | Advertise msg_type string nat bool
  | PublishMetaData string MapMetaData
  | PublishGrid string OccupancyGrid
  | Spin

record world =
  trace :: "event list"
  ticks :: nat

text \<open>
  A step returns a value, ends the process with \<open>exit(code)\<close>, or throws a YAML exception
  (the only exceptions that leave a constructor).
\<close>

datatype 'a result = Return 'a | Exit int | Throw yaml_exception

type_synonym 'a prog = "world \<Rightarrow> 'a result \<times> world"

definition and_then :: "'a prog \<Rightarrow> ('a \<Rightarrow> 'b prog) \<Rightarrow> 'b prog" where
  "and_then m f w =
     (case m w of
        (Return v, w') \<Rightarrow> f v w'
      | (Exit c, w') \<Rightarrow> (Exit c, w')
      | (Throw e, w') \<Rightarrow> (Throw e, w'))"

definition emit :: "event \<Rightarrow> world \<Rightarrow> world" where
  "emit e w = w\<lparr>trace := trace w @ [e]\<rparr>"

text \<open>
  The environment of a run: the YAML library, the files that open and what \<open>YAML::Load\<close>
  makes of each, the image loader (\<open>Inl\<close> is the message of the \<open>std::runtime_error\<close> it
  throws), and the clock, which is taken to be valid, so that \<open>ros::Time::waitForValid()\<close>
  returns.
\<close>

record env =
  yaml :: yaml_cpp
  files :: "string \<Rightarrow> (yaml_exception + node) option"
  loader :: "GetMap_Response \<Rightarrow> string \<Rightarrow> real \<Rightarrow> int \<Rightarrow> real \<Rightarrow> real \<Rightarrow>
             real \<times> real \<times> real \<Rightarrow> MapMode \<Rightarrow> string + GetMap_Response"
  now :: "nat \<Rightarrow> time"

definition ros_now :: "env \<Rightarrow> world \<Rightarrow> time \<times> world" where
  "ros_now E w = (now E (ticks w), w\<lparr>ticks := Suc (ticks w)\<rparr>)"

section \<open>\<open>Map::Map\<close>: one per-map declaration\<close>

text \<open>
  \<open>try { doc[...] >> x; } catch (YAML::InvalidScalar) { ROS_ERROR(msg); exit(-1); }\<close>:
  an exception of another class is not caught here.
\<close>

definition required :: "string \<Rightarrow> yaml_exception + 'a \<Rightarrow> 'a prog" where
  "required msg r w =
     (case r of
        Inr v \<Rightarrow> (Return v, w)
      | Inl e \<Rightarrow> (if e = InvalidScalar then (Exit (- 1), emit (ROS_ERROR msg) w)
                  else (Throw e, w)))"

text \<open>Lines 108-125: the only field with a default, and the only \<open>catch (YAML::Exception)\<close>.\<close>

definition read_mode :: "yaml_cpp \<Rightarrow> node \<Rightarrow> MapMode prog" where
  "read_mode L doc w =
     (case get_string L doc ''mode'' of
        Inr modeS \<Rightarrow>
          (if modeS = ''trinary'' then (Return TRINARY, w)
           else if modeS = ''scale'' then (Return SCALE, w)
           else if modeS = ''raw'' then (Return RAW, w)
           else (Exit (- 1),
                 emit (ROS_ERROR (''Invalid mode tag '' @ [CHR 0x22] @ modeS @ [CHR 0x22] @ ''.'')) w))
      | Inl e \<Rightarrow>
          (Return TRINARY,
           emit (ROS_DEBUG
             ''The map does not contain a mode tag or it is invalid... assuming Trinary'') w))"

text \<open>Lines 126-133: the three reads of \<open>origin\<close> share one \<open>try\<close>.\<close>

definition read_origin :: "yaml_cpp \<Rightarrow> node \<Rightarrow> (real \<times> real \<times> real) prog" where
  "read_origin L doc =
     required ''The map does not contain an origin tag or it is invalid.''
       (case get_double_at L doc ''origin'' 0 of
          Inl e \<Rightarrow> Inl e
        | Inr x \<Rightarrow>
            (case get_double_at L doc ''origin'' 1 of
               Inl e \<Rightarrow> Inl e
             | Inr y \<Rightarrow>
                 (case get_double_at L doc ''origin'' 2 of
                    Inl e \<Rightarrow> Inl e
                  | Inr th \<Rightarrow> Inr (x, y, th))))"

text \<open>Lines 134-152: the image path.\<close>

definition read_image :: "yaml_cpp \<Rightarrow> string \<Rightarrow> node \<Rightarrow> string prog" where
  "read_image L fname doc =
     and_then
       (required ''The map does not contain an image tag or it is invalid.''
          (get_string L doc ''image''))
       (\<lambda>mapfname w.
          if length mapfname = 0
          then (Exit (- 1), emit (ROS_ERROR ''The image tag cannot be an empty string.'') w)
          else if hd mapfname \<noteq> CHR ''/''
          then (Return (dirname fname @ [CHR ''/''] @ mapfname), w)
          else (Return mapfname, w))"

text \<open>The locals of the constructor once lines 84-152 have run.\<close>

record MapDeclaration =
  d_mapfname :: string
  d_origin :: "real \<times> real \<times> real"
  d_negate :: int
  d_occ_th :: real
  d_free_th :: real
  d_mode :: MapMode
  d_resolution :: real

definition parse_declaration :: "yaml_cpp \<Rightarrow> string \<Rightarrow> node \<Rightarrow> MapDeclaration prog" where
  "parse_declaration L fname doc =
     and_then (required ''The map does not contain a resolution tag or it is invalid.''
                 (get_double L doc ''resolution'')) (\<lambda>res.
     and_then (required ''The map does not contain a negate tag or it is invalid.''
                 (get_int L doc ''negate'')) (\<lambda>neg.
     and_then (required ''The map does not contain an occupied_thresh tag or it is invalid.''
                 (get_double L doc ''occupied_thresh'')) (\<lambda>occ.
     and_then (required ''The map does not contain a free_thresh tag or it is invalid.''
                 (get_double L doc ''free_thresh'')) (\<lambda>fre.
     and_then (read_mode L doc) (\<lambda>m.
     and_then (read_origin L doc) (\<lambda>orig.
     and_then (read_image L fname doc) (\<lambda>img w.
       (Return \<lparr>d_mapfname = img, d_origin = orig, d_negate = neg, d_occ_th = occ,
                d_free_th = fre, d_mode = m, d_resolution = res\<rparr>, w))))))))"

text \<open>Lines 70-82: the per-map file is opened and loaded.\<close>

definition open_yaml :: "env \<Rightarrow> string \<Rightarrow> node prog" where
  "open_yaml E fname w =
     (case files E fname of
        None \<Rightarrow> (Exit (- 1), emit (ROS_ERROR (''Multimap_server could not open '' @ fname @ ''.'')) w)
      | Some (Inl e) \<Rightarrow> (Throw e, w)
      | Some (Inr doc) \<Rightarrow> (Return doc, w))"

text \<open>Lines 154-163: the image is loaded into \<open>map_resp_\<close>.\<close>

definition load_image :: "env \<Rightarrow> MapDeclaration \<Rightarrow> GetMap_Response prog" where
  "load_image E d w =
     (let w1 = emit (ROS_INFO (''Loading map from image '' @ [CHR 0x22] @ d_mapfname d @ [CHR 0x22])) w in
      case loader E empty_response (d_mapfname d) (d_resolution d) (d_negate d)
             (d_occ_th d) (d_free_th d) (d_origin d) (d_mode d) of
        Inl msg \<Rightarrow> (Exit (- 1), emit (ROS_ERROR msg) w1)
      | Inr resp \<Rightarrow> (Return resp, w1))"

text \<open>The members of \<open>Map\<close>: the three handles by the names they were made with, and the cache.\<close>

record Map =
  service :: string
  metadata_pub :: string
  map_pub :: string
  meta_data_message :: MapMetaData
  map_resp :: GetMap_Response

text \<open>Lines 164-186: the stamps, then the three endpoints.\<close>

definition publish_map :: "env \<Rightarrow> string \<Rightarrow> string \<Rightarrow> string \<Rightarrow> GetMap_Response \<Rightarrow> Map prog" where
  "publish_map E ns desired_name global_frame_id resp w =
     (let (t1, w1) = ros_now E w;
          grid1 = (map_msg resp)\<lparr>info := (info (map_msg resp))\<lparr>map_load_time := t1\<rparr>\<rparr>;
          (t2, w2) = ros_now E w1;
          grid2 = grid1\<lparr>header := (header grid1)\<lparr>frame_id := global_frame_id, stamp := t2\<rparr>\<rparr>;
          w3 = emit (ROS_INFO_Read (width (info grid2)) (height (info grid2))
                       (resolution (info grid2))) w2;
          meta = info grid2;
          service_name = ns @ ''/'' @ desired_name @ ''/'' @ ''static_map'';
          w4 = emit (AdvertiseService service_name) w3;
          metadata_topic_name = ns @ ''/'' @ desired_name @ ''/'' @ ''map_metadata'';
          w5 = emit (Advertise MapMetaData_msg metadata_topic_name 1 True) w4;
          w6 = emit (PublishMetaData metadata_topic_name meta) w5;
          map_topic_name = ns @ ''/'' @ desired_name @ ''/'' @ ''map'';
          w7 = emit (Advertise OccupancyGrid_msg map_topic_name 1 True) w6;
          w8 = emit (PublishGrid map_topic_name grid2) w7
      in (Return \<lparr>service = service_name, metadata_pub = metadata_topic_name,
                  map_pub = map_topic_name, meta_data_message = meta,
                  map_resp = resp\<lparr>map_msg := grid2\<rparr>\<rparr>, w8))"

definition Map_ctor :: "env \<Rightarrow> string \<Rightarrow> string \<Rightarrow> string \<Rightarrow> string \<Rightarrow> Map prog" where
  "Map_ctor E fname ns desired_name global_frame_id =
     and_then (open_yaml E fname) (\<lambda>doc.
     and_then (parse_declaration (yaml E) fname doc) (\<lambda>d.
     and_then (load_image E d) (\<lambda>resp.
       publish_map E ns desired_name global_frame_id resp)))"

text \<open>
  Lines 196-206, \<open>Map::mapCallback\<close>. It is a member function, so it could write to the map;
  the model returns the map after the call beside the response and the returned flag.
\<close>

definition mapCallback :: "Map \<Rightarrow> unit \<Rightarrow> world \<Rightarrow> (bool \<times> GetMap_Response \<times> Map) \<times> world" where
  "mapCallback m req w = ((True, map_resp m, m), emit (ROS_INFO ''Sending map'') w)"

section \<open>\<open>MultimapServer::MultimapServer\<close> and \<open>main\<close>\<close>

definition lift_yaml :: "yaml_exception + 'a \<Rightarrow> 'a prog" where
  "lift_yaml r w = (case r of Inl e \<Rightarrow> (Throw e, w) | Inr v \<Rightarrow> (Return v, w))"

text \<open>
  Lines 244-261, the body of the inner loop: the path is printed, then the map is built from
  the path, the key of the namespace, the key of the map and \<open>global_frame\<close>, read again.
\<close>

definition new_Map :: "env \<Rightarrow> node \<Rightarrow> node \<Rightarrow> node \<Rightarrow> node \<Rightarrow> Map prog" where
  "new_Map E first second map_key map_value =
     and_then (lift_yaml (as_string (yaml E) map_value)) (\<lambda>shown.
     and_then (\<lambda>w. (Return (), emit (Cout (shown @ [CHR 0x0A])) w)) (\<lambda>u.
     and_then (lift_yaml (as_string (yaml E) map_value)) (\<lambda>fname.
     and_then (lift_yaml (as_string (yaml E) first)) (\<lambda>ns.
     and_then (lift_yaml (as_string (yaml E) map_key)) (\<lambda>desired_name.
     and_then (lift_yaml (get_string (yaml E) second ''global_frame'')) (\<lambda>global_frame_id.
       Map_ctor E fname ns desired_name global_frame_id))))))"

fun maps_loop :: "env \<Rightarrow> node \<Rightarrow> node \<Rightarrow> (node \<times> node) list \<Rightarrow> Map list \<Rightarrow> Map list prog" where
  "maps_loop E first second [] maps_vector w = (Return maps_vector, w)"
| "maps_loop E first second (kv # rest) maps_vector w =
     (case new_Map E first second (fst kv) (snd kv) w of
        (Return m, w') \<Rightarrow> maps_loop E first second rest (maps_vector @ [m]) w'
      | (Exit c, w') \<Rightarrow> (Exit c, w')
      | (Throw e, w') \<Rightarrow> (Throw e, w'))"

text \<open>Lines 238-243: one namespace. The frame is read from the key \<open>global_frame\<close>.\<close>

definition namespace_body :: "env \<Rightarrow> node \<Rightarrow> node \<Rightarrow> Map list \<Rightarrow> Map list prog" where
  "namespace_body E first second maps_vector =
     and_then (lift_yaml (get_string (yaml E) second ''global_frame'')) (\<lambda>global_frame.
     and_then (lift_yaml (subscript second ''maps'')) (\<lambda>maps.
       maps_loop E first second (entries maps) maps_vector))"

fun namespaces_loop :: "env \<Rightarrow> (node \<times> node) list \<Rightarrow> Map list \<Rightarrow> Map list prog" where
  "namespaces_loop E [] maps_vector w = (Return maps_vector, w)"
| "namespaces_loop E (kv # rest) maps_vector w =
     (case namespace_body E (fst kv) (snd kv) maps_vector w of
        (Return maps_vector', w') \<Rightarrow> namespaces_loop E rest maps_vector' w'
      | (Exit c, w') \<Rightarrow> (Exit c, w')
      | (Throw e, w') \<Rightarrow> (Throw e, w'))"

text \<open>
  Lines 219-263. \<open>maps_vector\<close> is a local of the constructor; the model returns it, as the
  list of the maps that were built.
\<close>

definition MultimapServer_ctor :: "env \<Rightarrow> string \<Rightarrow> Map list prog" where
  "MultimapServer_ctor E fname =
     and_then (open_yaml E fname) (\<lambda>doc. namespaces_loop E (entries doc) [])"

definition USAGE :: string where
  "USAGE = [CHR 0x0A] @ ''USAGE: multimap_server <multimap_server_config.yaml>'' @ [CHR 0x0A] @
     ''  multimap_server_config.yaml: Indicates which maps are going to be loaded and info on how to do it''"

text \<open>
  Lines 317-339. \<open>argv\<close> is the argument vector as \<open>ros::init\<close> leaves it. The result is
  the value given to \<open>exit\<close> or returned by \<open>main\<close>, and the world the process leaves. \<open>ros::spin()\<close> is the serving phase: the event \<open>Spin\<close>. A YAML
  exception is a \<open>std::runtime_error\<close>, so the handler of \<open>main\<close> catches it.
\<close>

definition main :: "env \<Rightarrow> string list \<Rightarrow> world \<Rightarrow> int \<times> world" where
  "main E argv w =
     (if length argv \<noteq> 2 then (- 1, emit (ROS_ERROR USAGE) w)
      else
        let fname = argv ! 1 in
        case MultimapServer_ctor E fname w of
          (Return ms, w') \<Rightarrow> (0, emit Spin w')
        | (Exit c, w') \<Rightarrow> (c, w')
        | (Throw e, w') \<Rightarrow>
            (- 1, emit (ROS_ERROR (''multimap_server exception: '' @ what (yaml E) e)) w'))"

text \<open>The status the parent of the process sees: the low eight bits of the code.\<close>

definition exit_status :: "int \<Rightarrow> int" where
  "exit_status c = c mod 256"

definition initial_world :: world where
  "initial_world = \<lparr>trace = [], ticks = 0\<rparr>"

section \<open>The image loader\<close>

text \<open>
  \<open>multimap_server::loadMapFromFile\<close> is declared in \<open>multimap_server/image_loader.h\<close>; its
  body is not among the sources. The definitions of this section follow section 4.1 of the
  specification.
\<close>

text \<open>
  Modelled from the spec: the pixel buffer the image decoder hands to \<open>loadMapFromFile\<close>,
  "a 2-D buffer of intensity in [0,255] with optional alpha".
\<close>

record pixel =
  channels :: "nat list"
  alpha :: "real option"

record image =
  img_width :: nat
  img_height :: nat
  img_pixel :: "nat \<Rightarrow> nat \<Rightarrow> pixel"

text \<open>
  Modelled from the spec: step 1 of \<open>loadMapFromFile\<close>, "the pixel carries an alpha channel
  and alpha < 1.0".
\<close>

definition transparent :: "pixel \<Rightarrow> bool" where
  "transparent p = (case alpha p of Some a \<Rightarrow> a < 1 | None \<Rightarrow> False)"

text \<open>
  Modelled from the spec: step 2 of \<open>loadMapFromFile\<close>,
  "shade = average(color channels)/255, then occ = negate ? shade : (1 - shade)". A pixel has
  at least one colour channel. \<open>negate\<close> is the \<open>int\<close> of line 65, true when not zero.
\<close>

definition shade :: "pixel \<Rightarrow> real" where
  "shade p = (real (sum_list (channels p)) / real (length (channels p))) / 255"

definition occupancy :: "int \<Rightarrow> pixel \<Rightarrow> real" where
  "occupancy negate p = (if negate \<noteq> 0 then shade p else 1 - shade p)"

text \<open>
  Modelled from the spec: step 3 of \<open>loadMapFromFile\<close>, the mode dispatch, tests in the
  order the specification gives them.
\<close>

definition cell_value :: "MapMode \<Rightarrow> real \<Rightarrow> real \<Rightarrow> real \<Rightarrow> int" where
  "cell_value m occ_th free_th occ =
     (case m of
        RAW \<Rightarrow> max 0 (min 255 \<lfloor>occ * 255\<rfloor>)
      | TRINARY \<Rightarrow> (if occ > occ_th then 100 else if occ < free_th then 0 else - 1)
      | SCALE \<Rightarrow>
          (if occ > occ_th then 100
           else if occ < free_th then 0
           else \<lfloor>100 * (occ - free_th) / (occ_th - free_th)\<rfloor>))"

text \<open>Modelled from the spec: steps 1 to 3 of \<open>loadMapFromFile\<close> for one pixel.\<close>

definition convert_pixel :: "MapMode \<Rightarrow> int \<Rightarrow> real \<Rightarrow> real \<Rightarrow> pixel \<Rightarrow> int" where
  "convert_pixel m negate occ_th free_th p =
     (if transparent p then - 1 else cell_value m occ_th free_th (occupancy negate p))"

text \<open>
  Modelled from the spec: the cells \<open>loadMapFromFile\<close> writes, row-major, "image row r maps
  to grid row height-1-r".
\<close>

definition convert_cells :: "MapMode \<Rightarrow> int \<Rightarrow> real \<Rightarrow> real \<Rightarrow> image \<Rightarrow> int list" where
  "convert_cells m negate occ_th free_th img =
     concat (map (\<lambda>grid_row.
                    map (\<lambda>col. convert_pixel m negate occ_th free_th
                                 (img_pixel img (img_height img - 1 - grid_row) col))
                        [0..<img_width img])
                 [0..<img_height img])"

text \<open>
  Modelled from the spec: \<open>loadMapFromFile\<close>. A file the decoder cannot read is the only
  failure; the dimensions are the image's, "resolution and origin are copied verbatim from the
  declaration".
\<close>

definition loadMapFromFile ::
  "(string \<Rightarrow> image option) \<Rightarrow> GetMap_Response \<Rightarrow> string \<Rightarrow> real \<Rightarrow> int \<Rightarrow> real \<Rightarrow> real \<Rightarrow>
   real \<times> real \<times> real \<Rightarrow> MapMode \<Rightarrow> string + GetMap_Response" where
  "loadMapFromFile decode resp fname res negate occ_th free_th orig m =
     (case decode fname of
        None \<Rightarrow> Inl (''ImageLoadFailed: '' @ fname)
      | Some img \<Rightarrow>
          Inr (resp\<lparr>map_msg := (map_msg resp)
                 \<lparr>info := (info (map_msg resp))
                    \<lparr>width := img_width img, height := img_height img, resolution := res,
                     origin := \<lparr>pose_x = fst orig, pose_y = fst (snd orig),
                                pose_theta = snd (snd orig)\<rparr>\<rparr>,
                  data := convert_cells m negate occ_th free_th img\<rparr>\<rparr>))"

section \<open>Outcomes and observations\<close>

text \<open>A step is fatal when it does not return: the process exits, or an exception leaves it.\<close>

definition fatal :: "'a result \<Rightarrow> bool" where
  "fatal r = (case r of Return v \<Rightarrow> False | Exit c \<Rightarrow> True | Throw e \<Rightarrow> True)"

text \<open>
  The endpoint events of a trace: every advertisement and every publication, in order. The
  endpoints of a map are the five events lines 175-186 produce.
\<close>

fun is_endpoint :: "event \<Rightarrow> bool" where
  "is_endpoint (AdvertiseService n) = True"
| "is_endpoint (Advertise t n q l) = True"
| "is_endpoint (PublishMetaData n m) = True"
| "is_endpoint (PublishGrid n g) = True"
| "is_endpoint e = False"

definition endpoints :: "world \<Rightarrow> event list" where
  "endpoints w = filter is_endpoint (trace w)"

definition map_endpoints :: "string \<Rightarrow> string \<Rightarrow> Map \<Rightarrow> event list" where
  "map_endpoints ns nm m =
     [AdvertiseService (ns @ ''/'' @ nm @ ''/static_map''),
      Advertise MapMetaData_msg (ns @ ''/'' @ nm @ ''/map_metadata'') 1 True,
      PublishMetaData (ns @ ''/'' @ nm @ ''/map_metadata'') (meta_data_message m),
      Advertise OccupancyGrid_msg (ns @ ''/'' @ nm @ ''/map'') 1 True,
      PublishGrid (ns @ ''/'' @ nm @ ''/map'') (map_msg (map_resp m))]"

text \<open>
  The build-phase errors of one per-map file: a required field whose read throws (the field
  is absent, or its text does not convert), an empty image tag, or an image the loader
  rejects. A per-map file that does not open or does not load counts as well.
\<close>

definition field_error :: "yaml_cpp \<Rightarrow> node \<Rightarrow> bool" where
  "field_error L doc \<longleftrightarrow>
     isl (get_double L doc ''resolution'') \<or> isl (get_int L doc ''negate'') \<or>
     isl (get_double L doc ''occupied_thresh'') \<or> isl (get_double L doc ''free_thresh'') \<or>
     isl (get_double_at L doc ''origin'' 0) \<or> isl (get_double_at L doc ''origin'' 1) \<or>
     isl (get_double_at L doc ''origin'' 2) \<or>
     isl (get_string L doc ''image'') \<or> get_string L doc ''image'' = Inr []"



text \<open>
  A step is calm when every \<open>exit\<close> it makes has code \<open>-1\<close> and it never enters
  \<open>ros::spin()\<close>.
\<close>

definition calm :: "'a prog \<Rightarrow> bool" where
  "calm m \<longleftrightarrow>
     (\<forall>w. (\<forall>c. fst (m w) = Exit c \<longrightarrow> c = - 1) \<and>
          (Spin \<in> set (trace (snd (m w))) \<longleftrightarrow> Spin \<in> set (trace w)))"

text \<open>The publications of a trace: the messages sent on the two topics, in order.\<close>

fun is_publication :: "event \<Rightarrow> bool" where
  "is_publication (PublishMetaData n m) = True"
| "is_publication (PublishGrid n g) = True"
| "is_publication e = False"

definition publications :: "world \<Rightarrow> event list" where
  "publications w = filter is_publication (trace w)"



section \<open>A sample configuration\<close>

text \<open>
  A library instance that converts the numerals of the sample files, one namespace with the
  maps \<open>lab\<close> and \<open>hall\<close>, and a decoder that knows the image of \<open>lab\<close> only.
\<close>

definition demo_yaml :: yaml_cpp where
  "demo_yaml =
     \<lparr>decode_double = (\<lambda>s. if s = ''0'' then Some 0
                            else if s = ''0.05'' then Some (1 / 20)
                            else if s = ''-0.05'' then Some (- (1 / 20))
                            else if s = ''0.65'' then Some (13 / 20)
                            else if s = ''0.196'' then Some (49 / 250)
                            else None),
      decode_int = (\<lambda>s. if s = ''0'' then Some 0 else if s = ''1'' then Some 1
                         else if s = ''2'' then Some 2 else None),
      null_text = Some ''null'',
      conversion_failure = BadConversion,
      what = (\<lambda>e. ''yaml-cpp: error'')\<rparr>"

definition demo_fields :: "string \<Rightarrow> string \<Rightarrow> (string \<times> node) list" where
  "demo_fields img res =
     [(''image'', YScalar img), (''resolution'', YScalar res),
      (''origin'', YSequence [YScalar ''0'', YScalar ''0'', YScalar ''0'']),
      (''negate'', YScalar ''0''), (''occupied_thresh'', YScalar ''0.65''),
      (''free_thresh'', YScalar ''0.196'')]"

definition demo_map :: "string \<Rightarrow> string \<Rightarrow> node" where
  "demo_map img res = YMap (demo_fields img res)"

definition demo_image :: image where
  "demo_image = \<lparr>img_width = 2, img_height = 1,
     img_pixel = (\<lambda>r c. \<lparr>channels = [if c = 0 then 0 else 255], alpha = None\<rparr>)\<rparr>"

definition demo_top :: node where
  "demo_top = YMap [(''floor1'', YMap [(''global_frame'', YScalar ''map''),
       (''maps'', YMap [(''lab'', YScalar ''maps/lab.yaml''), (''hall'', YScalar ''maps/hall.yaml'')])])]"

text \<open>
  Two more top-level files with the map \<open>lab\<close> only: \<open>one.yaml\<close> names the frame under
  the key \<open>global_frame\<close>, \<open>spec.yaml\<close> under the key \<open>global_frame_id\<close>. The per-map file
  \<open>maps/neg.yaml\<close> is \<open>maps/lab.yaml\<close> with the resolution \<open>-0.05\<close>.
\<close>

definition demo_one :: "string \<Rightarrow> node" where
  "demo_one frame_key =
     YMap [(''floor1'', YMap [(frame_key, YScalar ''map''),
                              (''maps'', YMap [(''lab'', YScalar ''maps/lab.yaml'')])])]"

definition demo_env :: env where
  "demo_env = \<lparr>yaml = demo_yaml,
     files = (\<lambda>p. if p = ''cfg.yaml'' then Some (Inr demo_top)
                  else if p = ''one.yaml'' then Some (Inr (demo_one ''global_frame''))
                  else if p = ''spec.yaml'' then Some (Inr (demo_one ''global_frame_id''))
                  else if p = ''maps/lab.yaml'' then Some (Inr (demo_map ''lab.png'' ''0.05''))
                  else if p = ''maps/hall.yaml'' then Some (Inr (demo_map ''hall.png'' ''0.05''))
                  else if p = ''maps/neg.yaml'' then Some (Inr (demo_map ''lab.png'' ''-0.05''))
                  else None),
     loader = loadMapFromFile (\<lambda>p. if p = ''maps/lab.png'' then Some demo_image else None),
     now = (\<lambda>k. 1000 + k)\<rparr>"

definition demo_info :: MapMetaData where
  "demo_info = \<lparr>map_load_time = 1000, resolution = 1 / 20, width = 2, height = 1,
                 origin = \<lparr>pose_x = 0, pose_y = 0, pose_theta = 0\<rparr>\<rparr>"

definition demo_grid :: OccupancyGrid where
  "demo_grid = \<lparr>header = \<lparr>stamp = 1001, frame_id = ''map''\<rparr>, info = demo_info, data = [100, 0]\<rparr>"

definition demo_lab :: Map where
  "demo_lab = \<lparr>service = ''floor1/lab/static_map'', metadata_pub = ''floor1/lab/map_metadata'',
                map_pub = ''floor1/lab/map'', meta_data_message = demo_info,
                map_resp = \<lparr>map_msg = demo_grid\<rparr>\<rparr>"

text \<open>The map the constructor builds from \<open>maps/neg.yaml\<close>.\<close>

definition demo_neg :: Map where
  "demo_neg = \<lparr>service = ''floor1/neg/static_map'', metadata_pub = ''floor1/neg/map_metadata'',
                map_pub = ''floor1/neg/map'',
                meta_data_message = demo_info\<lparr>resolution := - (1 / 20)\<rparr>,
                map_resp = \<lparr>map_msg = demo_grid\<lparr>info := demo_info\<lparr>resolution := - (1 / 20)\<rparr>\<rparr>\<rparr>\<rparr>"

text \<open>
  A decoder that reads one image under every name, an environment whose files all fail to
  load as YAML, and the response the loader fills from the image of \<open>lab\<close>.
\<close>

definition only_image :: "image \<Rightarrow> string \<Rightarrow> image option" where
  "only_image img p = Some img"

definition unparsable_env :: env where
  "unparsable_env = demo_env\<lparr>files := \<lambda>p. Some (Inl ParserException)\<rparr>"

definition demo_loaded :: GetMap_Response where
  "demo_loaded =
     \<lparr>map_msg = \<lparr>header = \<lparr>stamp = 0, frame_id = ''''\<rparr>,
                 info = \<lparr>map_load_time = 0, resolution = 1 / 20, width = 2, height = 1,
                         origin = \<lparr>pose_x = 0, pose_y = 0, pose_theta = 0\<rparr>\<rparr>,
                 data = [100, 0]\<rparr>\<rparr>"

section \<open>Lemmas on the steps\<close>

lemma fatal_simps [simp]: "\<not> fatal (Return v)" "fatal (Exit c)" "fatal (Throw e)"
  by (simp_all add: fatal_def)

lemma and_then_Return: "m w = (Return v, w1) \<Longrightarrow> and_then m f w = f v w1"
  by (simp add: and_then_def)

lemma and_then_ReturnD:
  assumes "and_then m f w = (Return x, w')"
  obtains v w1 where "m w = (Return v, w1)" and "f v w1 = (Return x, w')"
proof (cases "m w")
  case (Pair r w1)
  with assms show ?thesis
    by (cases r) (auto simp: and_then_def intro: that)
qed

lemma and_then_fatal: "fatal (fst (m w)) \<Longrightarrow> fatal (fst (and_then m f w))"
  by (cases "m w"; cases "fst (m w)") (auto simp: and_then_def)

lemma required_Return: "required msg r w = (Return v, w') \<longleftrightarrow> r = Inr v \<and> w' = w"
  by (auto simp: required_def split: sum.splits)

lemma required_fatal: "fatal (fst (required msg r w)) \<longleftrightarrow> isl r"
  by (auto simp: required_def split: sum.splits)




lemma parse_declaration_ReturnD:
  assumes "parse_declaration L fname doc w = (Return d, w')"
  obtains w5 w6 where
    "get_double L doc ''resolution'' = Inr (d_resolution d)"
    "get_int L doc ''negate'' = Inr (d_negate d)"
    "get_double L doc ''occupied_thresh'' = Inr (d_occ_th d)"
    "get_double L doc ''free_thresh'' = Inr (d_free_th d)"
    "read_mode L doc w = (Return (d_mode d), w5)"
    "read_origin L doc w5 = (Return (d_origin d), w6)"
    "read_image L fname doc w6 = (Return (d_mapfname d), w')"
proof -
  from assms show ?thesis
    unfolding parse_declaration_def
    apply (elim and_then_ReturnD)
    apply (auto simp: required_Return intro: that)
    done
qed



lemma Map_ctor_ReturnD:
  assumes "Map_ctor E fname ns nm gf w = (Return m, w')"
  obtains doc d resp w1 w2 where
    "files E fname = Some (Inr doc)"
    "parse_declaration (yaml E) fname doc w = (Return d, w1)"
    "load_image E d w1 = (Return resp, w2)"
    "publish_map E ns nm gf resp w2 = (Return m, w')"
proof -
  from assms show ?thesis
    unfolding Map_ctor_def
    apply (elim and_then_ReturnD)
    apply (auto simp: open_yaml_def split: option.splits sum.splits intro: that)
    done
qed


lemma endpoints_emit: "endpoints (emit e w) = endpoints w @ (if is_endpoint e then [e] else [])"
  by (simp add: endpoints_def emit_def)

lemma endpoints_ticks [simp]: "endpoints (w\<lparr>ticks := k\<rparr>) = endpoints w"
  by (simp add: endpoints_def)

lemma and_then_endpoints:
  assumes "\<And>w. endpoints (snd (m w)) = endpoints w"
      and "\<And>v w. endpoints (snd (f v w)) = endpoints w"
  shows "endpoints (snd (and_then m f w)) = endpoints w"
proof (cases "m w")
  case (Pair r w1)
  with assms(1) [of w] have "endpoints w1 = endpoints w" by simp
  with Pair assms(2) show ?thesis
    by (cases r) (simp_all add: and_then_def)
qed

lemma required_endpoints: "endpoints (snd (required msg r w)) = endpoints w"
  by (simp add: required_def endpoints_emit split: sum.splits)

lemma read_mode_endpoints: "endpoints (snd (read_mode L doc w)) = endpoints w"
  by (simp add: read_mode_def endpoints_emit split: sum.splits)

lemma read_origin_endpoints: "endpoints (snd (read_origin L doc w)) = endpoints w"
  by (simp add: read_origin_def required_endpoints)

lemma read_image_endpoints: "endpoints (snd (read_image L fname doc w)) = endpoints w"
  unfolding read_image_def
  by (rule and_then_endpoints) (simp_all add: required_endpoints endpoints_emit)

lemma parse_declaration_endpoints:
  "endpoints (snd (parse_declaration L fname doc w)) = endpoints w"
  unfolding parse_declaration_def
  by (intro and_then_endpoints required_endpoints read_mode_endpoints read_origin_endpoints
        read_image_endpoints) simp


lemma load_image_endpoints: "endpoints (snd (load_image E d w)) = endpoints w"
  by (simp add: load_image_def Let_def endpoints_emit split: sum.splits)


lemma publish_map_endpoints:
  "publish_map E ns nm gf resp w = (Return m, w') \<Longrightarrow>
   endpoints w' = endpoints w @ map_endpoints ns nm m"
  by (auto simp: publish_map_def Let_def ros_now_def endpoints_emit map_endpoints_def
      split: prod.splits)


lemma Map_ctor_endpoints_Return:
  assumes "Map_ctor E fname ns nm gf w = (Return m, w')"
  shows "endpoints w' = endpoints w @ map_endpoints ns nm m"
proof -
  from assms obtain doc d resp w1 w2 where
    f: "files E fname = Some (Inr doc)" and
    p: "parse_declaration (yaml E) fname doc w = (Return d, w1)" and
    l: "load_image E d w1 = (Return resp, w2)" and
    q: "publish_map E ns nm gf resp w2 = (Return m, w')"
    by (rule Map_ctor_ReturnD)
  from parse_declaration_endpoints [of "yaml E" fname doc w] p have "endpoints w1 = endpoints w" by simp
  moreover from load_image_endpoints [of E d w1] l have "endpoints w2 = endpoints w1" by simp
  ultimately show ?thesis using publish_map_endpoints [OF q] by simp
qed

lemma publish_map_consistent:
  "publish_map E ns nm gf resp w = (Return m, w') \<Longrightarrow>
   meta_data_message m = info (map_msg (map_resp m)) \<and> 
   frame_id (header (map_msg (map_resp m))) = gf"
  by (auto simp: publish_map_def Let_def split: prod.splits)





lemma read_origin_ReturnD:
  "read_origin L doc w = (Return v, w') \<Longrightarrow>
   \<not> isl (get_double_at L doc ''origin'' 0) \<and> \<not> isl (get_double_at L doc ''origin'' 1) \<and>
   \<not> isl (get_double_at L doc ''origin'' 2)"
  by (auto simp: read_origin_def required_def split: sum.splits if_splits)

lemma read_image_ReturnD:
  "read_image L fname doc w = (Return v, w') \<Longrightarrow>
   \<exists>img. get_string L doc ''image'' = Inr img \<and> img \<noteq> [] \<and> w' = w \<and>
     v = (if hd img = CHR ''/'' then img else dirname fname @ ''/'' @ img)"
  unfolding read_image_def
  by (erule and_then_ReturnD) (auto simp: required_Return split: if_splits)

lemma field_error_fatal:
  assumes "field_error L doc"
  shows "fatal (fst (parse_declaration L fname doc w))"
proof (cases "parse_declaration L fname doc w")
  case (Pair r w')
  show ?thesis
  proof (cases r)
    case (Return d)
    with Pair have "parse_declaration L fname doc w = (Return d, w')" by simp
    then have "\<not> field_error L doc"
      by (elim parse_declaration_ReturnD)
         (auto simp: field_error_def dest!: read_origin_ReturnD read_image_ReturnD)
    with assms show ?thesis by simp
  qed (simp_all add: Pair)
qed

lemma load_image_ReturnD:
  "load_image E d w = (Return resp, w') \<Longrightarrow>
   loader E empty_response (d_mapfname d) (d_resolution d) (d_negate d)
     (d_occ_th d) (d_free_th d) (d_origin d) (d_mode d) = Inr resp"
  by (auto simp: load_image_def Let_def split: sum.splits)






lemma calmI:
  assumes "\<And>w c. fst (m w) = Exit c \<Longrightarrow> c = - 1"
      and "\<And>w. Spin \<in> set (trace (snd (m w))) \<longleftrightarrow> Spin \<in> set (trace w)"
  shows "calm m"
  using assms unfolding calm_def by blast

lemma calm_exit: "calm m \<Longrightarrow> fst (m w) = Exit c \<Longrightarrow> c = - 1"
  unfolding calm_def by blast

lemma calm_spin: "calm m \<Longrightarrow> Spin \<in> set (trace (snd (m w))) \<longleftrightarrow> Spin \<in> set (trace w)"
  unfolding calm_def by blast

lemma calm_and_then:
  assumes "calm m" and "\<And>v. calm (f v)"
  shows "calm (and_then m f)"
proof (rule calmI)
  fix w c
  obtain r w1 where a: "m w = (r, w1)" by (cases "m w")
  assume b: "fst (and_then m f w) = Exit c"
  show "c = - 1"
  proof (cases r)
    case (Return v)
    with a b have "fst (f v w1) = Exit c" by (simp add: and_then_def)
    with assms(2) show ?thesis by (rule calm_exit)
  next
    case (Exit c')
    with a b have "fst (m w) = Exit c" by (simp add: and_then_def)
    with assms(1) show ?thesis by (rule calm_exit)
  next
    case (Throw e)
    with a b show ?thesis by (simp add: and_then_def)
  qed
next
  fix w
  obtain r w1 where a: "m w = (r, w1)" by (cases "m w")
  from calm_spin [OF assms(1), of w] a
  have s: "Spin \<in> set (trace w1) \<longleftrightarrow> Spin \<in> set (trace w)" by simp
  show "Spin \<in> set (trace (snd (and_then m f w))) \<longleftrightarrow> Spin \<in> set (trace w)"
  proof (cases r)
    case (Return v)
    with a calm_spin [OF assms(2), of v w1] s show ?thesis by (simp add: and_then_def)
  qed (use a s in \<open>simp_all add: and_then_def\<close>)
qed

lemma calm_required: "calm (required msg r)"
  by (rule calmI) (auto simp: required_def emit_def split: sum.splits if_splits)

lemma calm_lift_yaml: "calm (lift_yaml r)"
  by (rule calmI) (auto simp: lift_yaml_def split: sum.splits)

lemma calm_read_mode: "calm (read_mode L doc)"
  by (rule calmI) (auto simp: read_mode_def emit_def split: sum.splits if_splits)

lemma calm_read_origin: "calm (read_origin L doc)"
  by (simp add: read_origin_def calm_required)

lemma calm_read_image: "calm (read_image L fname doc)"
  unfolding read_image_def
  by (rule calm_and_then [OF calm_required], rule calmI) (auto simp: emit_def split: if_splits)

lemma calm_parse_declaration: "calm (parse_declaration L fname doc)"
  unfolding parse_declaration_def
  by (intro calm_and_then calm_required calm_read_mode calm_read_origin calm_read_image,
      rule calmI) auto

lemma calm_open_yaml: "calm (open_yaml E fname)"
  by (rule calmI) (auto simp: open_yaml_def emit_def split: option.splits sum.splits)

lemma calm_load_image: "calm (load_image E d)"
  by (rule calmI) (auto simp: load_image_def Let_def emit_def split: sum.splits)

lemma calm_publish_map: "calm (publish_map E ns nm gf resp)"
  by (rule calmI) (auto simp: publish_map_def Let_def emit_def ros_now_def split: prod.splits)

lemma calm_Map_ctor: "calm (Map_ctor E fname ns nm gf)"
  unfolding Map_ctor_def
  by (intro calm_and_then calm_open_yaml calm_parse_declaration calm_load_image calm_publish_map)

lemma calm_new_Map: "calm (new_Map E first second mk mv)"
  unfolding new_Map_def
  by (intro calm_and_then calm_lift_yaml calm_Map_ctor, rule calmI) (auto simp: emit_def)

lemma calm_maps_loop: "calm (maps_loop E first second kvs acc)"
proof (induction kvs arbitrary: acc)
  case Nil
  show ?case by (rule calmI) auto
next
  case (Cons kv kvs)
  have "maps_loop E first second (kv # kvs) acc =
        and_then (new_Map E first second (fst kv) (snd kv))
          (\<lambda>m. maps_loop E first second kvs (acc @ [m]))"
    by (rule ext) (simp add: and_then_def split: prod.splits result.splits)
  with Cons.IH calm_new_Map show ?case
    by (simp add: calm_and_then)
qed

lemma calm_namespace_body: "calm (namespace_body E first second acc)"
  unfolding namespace_body_def
  by (intro calm_and_then calm_lift_yaml calm_maps_loop)

lemma calm_namespaces_loop: "calm (namespaces_loop E nss acc)"
proof (induction nss arbitrary: acc)
  case Nil
  show ?case by (rule calmI) auto
next
  case (Cons kv nss)
  have "namespaces_loop E (kv # nss) acc =
        and_then (namespace_body E (fst kv) (snd kv) acc) (\<lambda>ms. namespaces_loop E nss ms)"
    by (rule ext) (simp add: and_then_def split: prod.splits result.splits)
  with Cons.IH calm_namespace_body show ?case
    by (simp add: calm_and_then)
qed

lemma calm_MultimapServer_ctor: "calm (MultimapServer_ctor E fname)"
  unfolding MultimapServer_ctor_def
  by (intro calm_and_then calm_open_yaml calm_namespaces_loop)

lemma main_fatal:
  assumes "fatal (fst (MultimapServer_ctor E cfg w))"
  shows "fst (main E [prog, cfg] w) = - 1 \<and>
         (Spin \<in> set (trace (snd (main E [prog, cfg] w))) \<longleftrightarrow> Spin \<in> set (trace w))"
proof -
  obtain r w1 where a: "MultimapServer_ctor E cfg w = (r, w1)"
    by (cases "MultimapServer_ctor E cfg w")
  from calm_exit [OF calm_MultimapServer_ctor, of E cfg w] a
  have c: "\<And>c. r = Exit c \<Longrightarrow> c = - 1" by simp
  from calm_spin [OF calm_MultimapServer_ctor, of E cfg w] a
  have s: "Spin \<in> set (trace w1) \<longleftrightarrow> Spin \<in> set (trace w)" by simp
  from assms a c s show ?thesis
    by (cases r) (auto simp: main_def emit_def)
qed


lemma demo_parse:
  "parse_declaration demo_yaml ''maps/lab.yaml'' (demo_map ''lab.png'' ''0.05'') w =
     (Return \<lparr>d_mapfname = ''maps/lab.png'', d_origin = (0, 0, 0), d_negate = 0,
              d_occ_th = 13 / 20, d_free_th = 49 / 250, d_mode = TRINARY,
              d_resolution = 1 / 20\<rparr>,
      emit (ROS_DEBUG ''The map does not contain a mode tag or it is invalid... assuming Trinary'') w)"
  by (simp add: parse_declaration_def and_then_def required_def read_mode_def read_origin_def
      read_image_def get_double_def get_int_def get_string_def get_double_at_def demo_map_def demo_fields_def
      demo_yaml_def dirname_def strip_slashes_def)

lemma demo_cells: "convert_cells TRINARY 0 (13 / 20) (49 / 250) demo_image = [100, 0]"
  by (simp add: convert_cells_def convert_pixel_def cell_value_def occupancy_def shade_def
      transparent_def demo_image_def upt_rec)

lemma demo_dims: "img_width demo_image = 2" "img_height demo_image = 1"
  by (simp_all add: demo_image_def)

lemma demo_run:
  "fst (Map_ctor demo_env ''maps/lab.yaml'' ''floor1'' ''lab'' ''map'' initial_world) = Return demo_lab"
  by (simp add: Map_ctor_def and_then_def open_yaml_def demo_env_def demo_parse load_image_def
      loadMapFromFile_def demo_cells publish_map_def ros_now_def emit_def initial_world_def
      empty_response_def demo_dims demo_lab_def demo_grid_def demo_info_def Let_def)

lemma not_isl_Inr: "\<not> isl x \<Longrightarrow> \<exists>v. x = Inr v"
  by (cases x) simp_all


lemma publications_endpoints: "publications w = filter is_publication (endpoints w)"
proof -
  have "\<And>e. (is_endpoint e \<and> is_publication e) = is_publication e"
    by (case_tac e) simp_all
  then show ?thesis by (simp add: publications_def endpoints_def)
qed

lemma publish_map_names:
  "publish_map E ns nm gf resp w = (Return m, w') \<Longrightarrow>
   service m = ns @ ''/'' @ nm @ ''/static_map'' \<and>
   metadata_pub m = ns @ ''/'' @ nm @ ''/map_metadata'' \<and>
   map_pub m = ns @ ''/'' @ nm @ ''/map''"
  by (auto simp: publish_map_def Let_def split: prod.splits)

lemma demo_run_pair:
  "Map_ctor demo_env ''maps/lab.yaml'' ''floor1'' ''lab'' ''map'' initial_world =
     (Return demo_lab,
      snd (Map_ctor demo_env ''maps/lab.yaml'' ''floor1'' ''lab'' ''map'' initial_world))"
  using demo_run by (simp add: prod_eq_iff)

lemma strip_slashes_no_slash: "s \<noteq> [] \<Longrightarrow> last s \<noteq> CHR ''/'' \<Longrightarrow> strip_slashes s = s"
  by (cases "rev s") (auto simp: strip_slashes_def last_rev hd_rev [symmetric] dest!: arg_cong [where f = rev])

lemma dirname_of_file:
  assumes "dir \<noteq> []" "last dir \<noteq> CHR ''/''" "base \<noteq> []" "CHR ''/'' \<notin> set base"
  shows "dirname (dir @ ''/'' @ base) = dir"
proof -
  define p where "p = dir @ ''/'' @ base"
  define q where "q = dir @ ''/''"
  from assms have lb: "last base \<noteq> CHR ''/''" by (metis last_in_set)
  then have "last p \<noteq> CHR ''/''" using assms(3) by (simp add: p_def)
  moreover have pn: "p \<noteq> []" by (simp add: p_def)
  ultimately have s: "strip_slashes p = p" by (intro strip_slashes_no_slash)
  have mem: "CHR ''/'' \<in> set p" by (simp add: p_def)
  have "dropWhile (\<lambda>c. c \<noteq> CHR ''/'') (rev p) = CHR ''/'' # rev dir"
    using assms(4) by (auto simp: dropWhile_append3 p_def)
  then have d: "rev (dropWhile (\<lambda>c. c \<noteq> CHR ''/'') (rev p)) = q" by (simp add: q_def)
  have sd: "strip_slashes q = dir"
    using strip_slashes_no_slash [OF assms(1,2)] by (simp add: strip_slashes_def q_def)
  have qn: "q \<noteq> []" by (simp add: q_def)
  have "dirname p = dir"
    unfolding dirname_def Let_def s d sd using mem pn qn assms(1) by simp
  then show ?thesis by (simp add: p_def)
qed




lemma read_mode_not_fatal:
  "\<not> fatal (fst (read_mode L doc w)) \<Longrightarrow> \<exists>m w'. read_mode L doc w = (Return m, w')"
  by (cases "read_mode L doc w"; cases "fst (read_mode L doc w)") auto

lemma parse_declaration_succeeds:
  assumes "\<not> field_error L doc" "\<not> fatal (fst (read_mode L doc w))"
  shows "\<exists>d. fst (parse_declaration L fname doc w) = Return d"
proof -
  from assms(1) obtain r n oc fr x y th img where
    g: "get_double L doc ''resolution'' = Inr r" "get_int L doc ''negate'' = Inr n"
       "get_double L doc ''occupied_thresh'' = Inr oc" "get_double L doc ''free_thresh'' = Inr fr"
       "get_double_at L doc ''origin'' 0 = Inr x" "get_double_at L doc ''origin'' 1 = Inr y"
       "get_double_at L doc ''origin'' 2 = Inr th" "get_string L doc ''image'' = Inr img"
       "img \<noteq> []"
    unfolding field_error_def by (auto dest!: not_isl_Inr)
  from read_mode_not_fatal [OF assms(2)] obtain m w' where
    m: "read_mode L doc w = (Return m, w')" by blast
  show ?thesis
    by (simp add: parse_declaration_def and_then_def required_def read_origin_def
        read_image_def g m del: One_nat_def)
qed

lemma demo_parse_neg:
  "parse_declaration demo_yaml ''maps/neg.yaml'' (demo_map ''lab.png'' ''-0.05'') w =
     (Return \<lparr>d_mapfname = ''maps/lab.png'', d_origin = (0, 0, 0), d_negate = 0,
              d_occ_th = 13 / 20, d_free_th = 49 / 250, d_mode = TRINARY,
              d_resolution = - (1 / 20)\<rparr>,
      emit (ROS_DEBUG ''The map does not contain a mode tag or it is invalid... assuming Trinary'') w)"
  by (simp add: parse_declaration_def and_then_def required_def read_mode_def read_origin_def
      read_image_def get_double_def get_int_def get_string_def get_double_at_def demo_map_def
      demo_fields_def demo_yaml_def dirname_def strip_slashes_def)

lemma demo_run_neg:
  "fst (Map_ctor demo_env ''maps/neg.yaml'' ''floor1'' ''neg'' ''map'' initial_world) = Return demo_neg"
  by (simp add: Map_ctor_def and_then_def open_yaml_def demo_env_def demo_parse_neg load_image_def
      loadMapFromFile_def demo_cells publish_map_def ros_now_def emit_def initial_world_def
      empty_response_def demo_dims demo_neg_def demo_grid_def demo_info_def Let_def)

lemma namespaces_loop_fatal_body:
  assumes "(first, second) \<in> set nss"
      and "\<And>acc w. fatal (fst (namespace_body E first second acc w))"
  shows "fatal (fst (namespaces_loop E nss acc w))"
  using assms(1)
proof (induction nss arbitrary: acc w)
  case Nil
  then show ?case by simp
next
  case (Cons kv nss)
  obtain r w1 where n: "namespace_body E (fst kv) (snd kv) acc w = (r, w1)"
    by (cases "namespace_body E (fst kv) (snd kv) acc w")
  show ?case
  proof (cases r)
    case (Return ms)
    with n assms(2) [of acc w] have "kv \<noteq> (first, second)"
      by auto
    with Cons.prems have "(first, second) \<in> set nss" by auto
    from Cons.IH [OF this] n Return show ?thesis by simp
  qed (simp_all add: n)
qed

lemma namespace_body_no_frame:
  "map_of kvs ''global_frame'' = None \<Longrightarrow>
   namespace_body E first (YMap kvs) acc w = (Throw (conversion_failure (yaml E)), w)"
  by (simp add: namespace_body_def and_then_def lift_yaml_def get_string_def)

lemma new_Map_frame:
  assumes "new_Map E first second mk mv w = (Return m, w')"
  shows "get_string (yaml E) second ''global_frame'' = Inr (frame_id (header (map_msg (map_resp m))))"
proof -
  from assms obtain fname ns nm gf w1 where
    g: "lift_yaml (get_string (yaml E) second ''global_frame'') w1 = (Return gf, w1)" and
    c: "Map_ctor E fname ns nm gf w1 = (Return m, w')"
    unfolding new_Map_def
    by (elim and_then_ReturnD) (auto simp: lift_yaml_def split: sum.splits)
  from c obtain resp w2 where "publish_map E ns nm gf resp w2 = (Return m, w')"
    by (rule Map_ctor_ReturnD)
  from publish_map_consistent [OF this] g show ?thesis
    by (auto simp: lift_yaml_def split: sum.splits)
qed

lemma demo_new_Map:
  "fst (new_Map demo_env (YScalar ''floor1'')
          (YMap [(''global_frame'', YScalar ''map''),
                 (''maps'', YMap [(''lab'', YScalar ''maps/lab.yaml'')])])
          (YScalar ''lab'') (YScalar ''maps/lab.yaml'') initial_world) = Return demo_lab"
proof -
  have y: "yaml demo_env = demo_yaml" by (simp add: demo_env_def)
  have f1: "files demo_env ''maps/lab.yaml'' = Some (Inr (demo_map ''lab.png'' ''0.05''))"
    by (simp add: demo_env_def)
  have l1: "loader demo_env empty_response ''maps/lab.png'' (1 / 20) 0 (13 / 20) (49 / 250) (0, 0, 0) TRINARY =
      Inr \<lparr>map_msg = \<lparr>header = \<lparr>stamp = 0, frame_id = ''''\<rparr>,
                 info = \<lparr>map_load_time = 0, resolution = 1 / 20, width = 2, height = 1,
                         origin = \<lparr>pose_x = 0, pose_y = 0, pose_theta = 0\<rparr>\<rparr>,
                 data = [100, 0]\<rparr>\<rparr>"
    by (simp add: demo_env_def loadMapFromFile_def demo_cells demo_dims empty_response_def)
  have n: "now demo_env = (\<lambda>k. 1000 + k)" by (simp add: demo_env_def)
  show ?thesis
    by (simp add: new_Map_def and_then_def lift_yaml_def get_string_def y
        Map_ctor_def open_yaml_def f1 demo_parse load_image_def l1 publish_map_def Let_def
        ros_now_def n emit_def initial_world_def demo_lab_def demo_info_def demo_grid_def)
qed

lemma demo_main_one:
  "fst (main demo_env [''multimap_server'', ''one.yaml''] initial_world) = 0 \<and>
   Spin \<in> set (trace (snd (main demo_env [''multimap_server'', ''one.yaml''] initial_world))) \<and>
   endpoints (snd (main demo_env [''multimap_server'', ''one.yaml''] initial_world)) =
     [AdvertiseService ''floor1/lab/static_map'',
      Advertise MapMetaData_msg ''floor1/lab/map_metadata'' 1 True,
      PublishMetaData ''floor1/lab/map_metadata'' demo_info,
      Advertise OccupancyGrid_msg ''floor1/lab/map'' 1 True,
      PublishGrid ''floor1/lab/map'' demo_grid]"
proof -
  have y: "yaml demo_env = demo_yaml" by (simp add: demo_env_def)
  have f0: "files demo_env ''one.yaml'' = Some (Inr (demo_one ''global_frame''))"
    by (simp add: demo_env_def)
  have f1: "files demo_env ''maps/lab.yaml'' = Some (Inr (demo_map ''lab.png'' ''0.05''))"
    by (simp add: demo_env_def)
  have l1: "loader demo_env empty_response ''maps/lab.png'' (1 / 20) 0 (13 / 20) (49 / 250) (0, 0, 0) TRINARY =
      Inr \<lparr>map_msg = \<lparr>header = \<lparr>stamp = 0, frame_id = ''''\<rparr>,
                 info = \<lparr>map_load_time = 0, resolution = 1 / 20, width = 2, height = 1,
                         origin = \<lparr>pose_x = 0, pose_y = 0, pose_theta = 0\<rparr>\<rparr>,
                 data = [100, 0]\<rparr>\<rparr>"
    by (simp add: demo_env_def loadMapFromFile_def demo_cells demo_dims empty_response_def)
  have n: "now demo_env = (\<lambda>k. 1000 + k)" by (simp add: demo_env_def)
  show ?thesis
    by (simp add: main_def MultimapServer_ctor_def open_yaml_def f0 f1 demo_one_def
        namespace_body_def new_Map_def and_then_def lift_yaml_def get_string_def y
        Map_ctor_def demo_parse load_image_def l1 publish_map_def Let_def
        ros_now_def n emit_def initial_world_def endpoints_def demo_info_def demo_grid_def)
qed

lemma demo_main_spec:
  "main demo_env [''multimap_server'', ''spec.yaml''] initial_world =
     (- 1, \<lparr>trace = [ROS_ERROR ''multimap_server exception: yaml-cpp: error''], ticks = 0\<rparr>)"
  by (simp add: main_def MultimapServer_ctor_def open_yaml_def demo_env_def demo_one_def
      namespace_body_def and_then_def lift_yaml_def get_string_def demo_yaml_def emit_def
      initial_world_def)

lemma concat_rows_nth:
  "i < n \<Longrightarrow> j < k \<Longrightarrow>
   concat (map (\<lambda>r. map (f r) [0..<k]) [0..<n]) ! (i * k + j) = f i j"
proof (induction n)
  case 0
  then show ?case by simp
next
  case (Suc n)
  have len: "length (concat (map (\<lambda>r. map (f r) [0..<k]) [0..<n])) = n * k"
    by (induction n) simp_all
  show ?case
  proof (cases "i < n")
    case True
    then have "Suc i * k \<le> n * k" by (intro mult_le_mono1) simp
    then have "i * k + j < n * k"
      using Suc.prems(2) by simp
    with True Suc show ?thesis by (simp add: nth_append len)
  next
    case False
    with Suc.prems have "i = n" by simp
    with Suc.prems show ?thesis by (simp add: nth_append len)
  qed
qed

lemma convert_cells_nth:
  assumes "r < img_height img" "c < img_width img"
  shows "convert_cells m negate occ_th free_th img ! ((img_height img - 1 - r) * img_width img + c) =
         convert_pixel m negate occ_th free_th (img_pixel img r c)"
proof -
  from assms(1) have g: "img_height img - 1 - r < img_height img"
    and b: "img_height img - 1 - (img_height img - 1 - r) = r"
    by simp_all
  show ?thesis
    unfolding convert_cells_def
    by (simp only: concat_rows_nth [OF g assms(2)] b)
qed

lemma convert_cells_length:
  "length (convert_cells m negate occ_th free_th img) = img_height img * img_width img"
proof -
  have "\<And>f k n. length (concat (map (\<lambda>r. map (f r) [0..<k]) [0..<n])) = n * k"
    subgoal for f k n by (induction n) simp_all
    done
  then show ?thesis by (simp add: convert_cells_def)
qed

lemma trinary_values: "cell_value TRINARY occ_th free_th occ \<in> {- 1, 0, 100}"
  by (simp add: cell_value_def)

lemma convert_cells_trinary_set:
  "set (convert_cells TRINARY negate occ_th free_th img) \<subseteq> {- 1, 0, 100}"
  using trinary_values by (auto simp: convert_cells_def convert_pixel_def)

lemma demo_load:
  "loadMapFromFile (only_image demo_image) empty_response ''lab.png'' (1 / 20) 0 (13 / 20) (49 / 250)
     (0, 0, 0) TRINARY = Inr demo_loaded"
  by (simp add: loadMapFromFile_def only_image_def demo_cells demo_dims empty_response_def
      demo_loaded_def)




















section \<open>The claims\<close>

text \<open>
  C1. Take a valid conversion in TRINARY mode of an image the decoder has read: the
  thresholds satisfy \<open>free_thresh \<le> occupied_thresh\<close>, the invariant of the declaration.
  Every cell of the grid is \<open>-1\<close>, \<open>0\<close> or \<open>100\<close>. The cell of the pixel in image row \<open>r\<close>
  and column \<open>c\<close> lies in grid row \<open>height - 1 - r\<close>. A pixel has a computed occupancy when
  step 1 has not already decided it, that is, when it is not transparent. For such a pixel,
  an occupancy above \<open>occupied_thresh\<close> gives the cell \<open>100\<close>, and an occupancy below
  \<open>free_thresh\<close> gives the cell \<open>0\<close>. The first two facts and the rule for \<open>100\<close> need no
  order of the thresholds; without it the rule for \<open>0\<close> holds where the occupancy does not
  exceed \<open>occupied_thresh\<close>.
\<close>

theorem trinary_conversion:
  assumes "decode fname = Some img"
      and "loadMapFromFile decode resp0 fname res negate occ_th free_th orig TRINARY = Inr resp"
      and "r < img_height img" and "c < img_width img"
  shows "set (data (map_msg resp)) \<subseteq> {- 1, 0, 100} \<and>
         length (data (map_msg resp)) = img_height img * img_width img \<and>
         (\<not> transparent (img_pixel img r c) \<and> occupancy negate (img_pixel img r c) > occ_th \<longrightarrow>
            data (map_msg resp) ! ((img_height img - 1 - r) * img_width img + c) = 100) \<and>
         (\<not> transparent (img_pixel img r c) \<and> occupancy negate (img_pixel img r c) < free_th \<and>
          \<not> occupancy negate (img_pixel img r c) > occ_th \<longrightarrow>
            data (map_msg resp) ! ((img_height img - 1 - r) * img_width img + c) = 0) \<and>
         (free_th \<le> occ_th \<and> \<not> transparent (img_pixel img r c) \<and>
          occupancy negate (img_pixel img r c) < free_th \<longrightarrow>
            data (map_msg resp) ! ((img_height img - 1 - r) * img_width img + c) = 0)"
proof -
  from assms(1,2) have d: "data (map_msg resp) = convert_cells TRINARY negate occ_th free_th img"
    by (auto simp: loadMapFromFile_def)
  have n: "data (map_msg resp) ! ((img_height img - 1 - r) * img_width img + c) =
           convert_pixel TRINARY negate occ_th free_th (img_pixel img r c)"
    unfolding d using assms(3,4) by (rule convert_cells_nth)
  show ?thesis
    unfolding n
    by (auto simp: d convert_cells_length convert_pixel_def cell_value_def
        dest: subsetD [OF convert_cells_trinary_set])
qed

theorem trinary_conversion_witness:
  "loadMapFromFile (only_image demo_image) empty_response ''lab.png'' (1 / 20) 0 (13 / 20) (49 / 250)
     (0, 0, 0) TRINARY = Inr demo_loaded \<and>
   (49 / 250 :: real) \<le> 13 / 20 \<and>
   set (data (map_msg demo_loaded)) \<subseteq> {- 1, 0, 100} \<and>
   \<not> transparent (img_pixel demo_image 0 0) \<and>
   occupancy 0 (img_pixel demo_image 0 0) > 13 / 20 \<and>
   data (map_msg demo_loaded) ! 0 = 100 \<and>
   \<not> transparent (img_pixel demo_image 0 1) \<and>
   occupancy 0 (img_pixel demo_image 0 1) < 49 / 250 \<and>
   \<not> occupancy 0 (img_pixel demo_image 0 1) > 13 / 20 \<and>
   data (map_msg demo_loaded) ! 1 = 0"
proof -
  have a: "only_image demo_image ''lab.png'' = Some demo_image" by (simp add: only_image_def)
  have h: "0 < img_height demo_image" "0 < img_width demo_image" "1 < img_width demo_image"
    by (simp_all add: demo_dims)
  have v: "(49 / 250 :: real) \<le> 13 / 20" by simp
  have p0: "\<not> transparent (img_pixel demo_image 0 0) \<and>
      occupancy 0 (img_pixel demo_image 0 0) > 13 / 20"
    by (simp add: demo_image_def transparent_def occupancy_def shade_def)
  have p1: "\<not> transparent (img_pixel demo_image 0 1) \<and>
      occupancy 0 (img_pixel demo_image 0 1) < 49 / 250 \<and>
      \<not> occupancy 0 (img_pixel demo_image 0 1) > 13 / 20"
    by (simp add: demo_image_def transparent_def occupancy_def shade_def)
  from trinary_conversion [OF a demo_load h(1) h(2)] p0
  have 0: "set (data (map_msg demo_loaded)) \<subseteq> {- 1, 0, 100} \<and> data (map_msg demo_loaded) ! 0 = 100"
    by (simp add: demo_dims)
  from trinary_conversion [OF a demo_load h(1) h(3)] v p1
  have 1: "data (map_msg demo_loaded) ! 1 = 0"
    by (simp add: demo_dims)
  from 0 1 v p0 p1 demo_load show ?thesis by simp
qed




text \<open>
  C3. When a map is built from the per-map file \<open>fname\<close>, the image tag of that file has a
  non-empty text \<open>img\<close>, and the path handed to the image loader is \<open>img\<close> itself when it
  starts with a slash and \<open>dirname fname\<close>, a slash and \<open>img\<close> otherwise. The path is a
  function of the per-map file's own name and its image tag only: for a file \<open>dir/base\<close> a
  relative image resolves to \<open>dir/img\<close>, whatever the top-level file or the working directory.
\<close>

theorem image_path_resolution:
  assumes "Map_ctor E fname ns nm gf w = (Return m, w')"
  shows "\<exists>doc img d resp.
           files E fname = Some (Inr doc) \<and>
           get_string (yaml E) doc ''image'' = Inr img \<and> img \<noteq> [] \<and>
           fst (parse_declaration (yaml E) fname doc w) = Return d \<and>
           d_mapfname d = (if hd img = CHR ''/'' then img else dirname fname @ ''/'' @ img) \<and>
           loader E empty_response (d_mapfname d) (d_resolution d) (d_negate d) (d_occ_th d)
             (d_free_th d) (d_origin d) (d_mode d) = Inr resp \<and>
           (\<forall>dir base. fname = dir @ ''/'' @ base \<and> dir \<noteq> [] \<and> last dir \<noteq> CHR ''/'' \<and>
               base \<noteq> [] \<and> CHR ''/'' \<notin> set base \<and> hd img \<noteq> CHR ''/'' \<longrightarrow>
               d_mapfname d = dir @ ''/'' @ img)"
proof -
  from assms obtain doc d resp w1 w2 where
    f: "files E fname = Some (Inr doc)" and
    p: "parse_declaration (yaml E) fname doc w = (Return d, w1)" and
    l: "load_image E d w1 = (Return resp, w2)"
    by (rule Map_ctor_ReturnD)
  from p obtain w6 where "read_image (yaml E) fname doc w6 = (Return (d_mapfname d), w1)"
    by (rule parse_declaration_ReturnD)
  from read_image_ReturnD [OF this] obtain img where
    i: "get_string (yaml E) doc ''image'' = Inr img" "img \<noteq> []"
       "d_mapfname d = (if hd img = CHR ''/'' then img else dirname fname @ ''/'' @ img)"
    by blast
  have "\<forall>dir base. fname = dir @ ''/'' @ base \<and> dir \<noteq> [] \<and> last dir \<noteq> CHR ''/'' \<and>
          base \<noteq> [] \<and> CHR ''/'' \<notin> set base \<and> hd img \<noteq> CHR ''/'' \<longrightarrow>
          d_mapfname d = dir @ ''/'' @ img"
    using i(3) by (auto simp: dirname_of_file simp del: append.simps)
  with f p i load_image_ReturnD [OF l] show ?thesis by auto
qed

theorem image_path_resolution_witness:
  "fst (Map_ctor demo_env ''maps/lab.yaml'' ''floor1'' ''lab'' ''map'' initial_world) = Return demo_lab \<and>
   (\<exists>d resp. fst (parse_declaration demo_yaml ''maps/lab.yaml'' (demo_map ''lab.png'' ''0.05'')
                   initial_world) = Return d \<and>
      d_mapfname d = ''maps/lab.png'' \<and>
      loader demo_env empty_response ''maps/lab.png'' (d_resolution d) (d_negate d) (d_occ_th d)
        (d_free_th d) (d_origin d) (d_mode d) = Inr resp)"
proof -
  from image_path_resolution [OF demo_run_pair] obtain doc img d resp where
    a: "files demo_env ''maps/lab.yaml'' = Some (Inr doc)"
       "get_string (yaml demo_env) doc ''image'' = Inr img"
       "fst (parse_declaration (yaml demo_env) ''maps/lab.yaml'' doc initial_world) = Return d"
       "d_mapfname d = (if hd img = CHR ''/'' then img else dirname ''maps/lab.yaml'' @ ''/'' @ img)"
       "loader demo_env empty_response (d_mapfname d) (d_resolution d) (d_negate d) (d_occ_th d)
             (d_free_th d) (d_origin d) (d_mode d) = Inr resp"
    by blast
  from a(1) have doc: "doc = demo_map ''lab.png'' ''0.05''" by (simp add: demo_env_def)
  from a(2) have img: "img = ''lab.png''"
    by (simp add: doc demo_map_def demo_fields_def get_string_def)
  from a(4) have "d_mapfname d = ''maps/lab.png''"
    by (simp add: img dirname_def strip_slashes_def)
  with a(3,5) doc demo_run show ?thesis
    by (auto simp: demo_env_def)
qed




text \<open>
  C5. A declaration whose \<open>resolution\<close> does not read (the key is absent or its text does
  not convert) is rejected: parsing is fatal. A resolution that reads is never checked against
  zero: whatever its value, when the other fields read and the mode is accepted, parsing
  returns a declaration that carries it, and a map built from the file has handed exactly
  that value to the image loader.
\<close>

theorem resolution_is_read_not_checked:
  "(isl (get_double L doc ''resolution'') \<longrightarrow> fatal (fst (parse_declaration L fname doc w))) \<and>
   (get_double L doc ''resolution'' = Inr r \<and> \<not> field_error L doc \<and>
    \<not> fatal (fst (read_mode L doc w)) \<longrightarrow>
      (\<exists>d. fst (parse_declaration L fname doc w) = Return d \<and> d_resolution d = r)) \<and>
   (Map_ctor E fname ns nm gf w = (Return m, w') \<longrightarrow>
      (\<exists>doc' (d::MapDeclaration) resp. files E fname = Some (Inr doc') \<and>
         get_double (yaml E) doc' ''resolution'' = Inr (d_resolution d) \<and>
         loader E empty_response (d_mapfname d) (d_resolution d) (d_negate d) (d_occ_th d)
           (d_free_th d) (d_origin d) (d_mode d) = Inr resp))"
proof (intro conjI impI)
  assume "isl (get_double L doc ''resolution'')"
  then have "field_error L doc" by (simp add: field_error_def)
  then show "fatal (fst (parse_declaration L fname doc w))" by (rule field_error_fatal)
next
  assume a: "get_double L doc ''resolution'' = Inr r \<and> \<not> field_error L doc \<and>
    \<not> fatal (fst (read_mode L doc w))"
  then obtain d where d: "fst (parse_declaration L fname doc w) = Return d"
    using parse_declaration_succeeds by blast
  then have "parse_declaration L fname doc w = (Return d, snd (parse_declaration L fname doc w))"
    by (simp add: prod_eq_iff)
  then have "get_double L doc ''resolution'' = Inr (d_resolution d)"
    by (rule parse_declaration_ReturnD)
  with a d show "\<exists>d. fst (parse_declaration L fname doc w) = Return d \<and> d_resolution d = r"
    by auto
next
  assume "Map_ctor E fname ns nm gf w = (Return m, w')"
  then obtain doc' d resp w1 w2 where
    f: "files E fname = Some (Inr doc')" and
    p: "parse_declaration (yaml E) fname doc' w = (Return d, w1)" and
    l: "load_image E d w1 = (Return resp, w2)"
    by (rule Map_ctor_ReturnD)
  from p have "get_double (yaml E) doc' ''resolution'' = Inr (d_resolution d)"
    by (rule parse_declaration_ReturnD)
  with f load_image_ReturnD [OF l]
  have c: "files E fname = Some (Inr doc') \<and>
         get_double (yaml E) doc' ''resolution'' = Inr (d_resolution d) \<and>
         loader E empty_response (d_mapfname d) (d_resolution d) (d_negate d) (d_occ_th d)
           (d_free_th d) (d_origin d) (d_mode d) = Inr resp"
    by simp
  show "\<exists>doc' (d::MapDeclaration) resp. files E fname = Some (Inr doc') \<and>
         get_double (yaml E) doc' ''resolution'' = Inr (d_resolution d) \<and>
         loader E empty_response (d_mapfname d) (d_resolution d) (d_negate d) (d_occ_th d)
           (d_free_th d) (d_origin d) (d_mode d) = Inr resp"
    by (rule exI [of _ doc'], rule exI [of _ d], rule exI [of _ resp]) (rule c)
qed

theorem resolution_is_read_not_checked_witness:
  "isl (get_double demo_yaml (YMap []) ''resolution'') \<and>
   fatal (fst (parse_declaration demo_yaml ''maps/lab.yaml'' (YMap []) initial_world)) \<and>
   get_double demo_yaml (demo_map ''lab.png'' ''0.05'') ''resolution'' = Inr (1 / 20) \<and>
   fst (parse_declaration demo_yaml ''maps/lab.yaml'' (demo_map ''lab.png'' ''0.05'') initial_world) =
     Return \<lparr>d_mapfname = ''maps/lab.png'', d_origin = (0, 0, 0), d_negate = 0,
              d_occ_th = 13 / 20, d_free_th = 49 / 250, d_mode = TRINARY,
              d_resolution = 1 / 20\<rparr> \<and>
   fst (Map_ctor demo_env ''maps/lab.yaml'' ''floor1'' ''lab'' ''map'' initial_world) = Return demo_lab \<and>
   get_double (yaml demo_env) (demo_map ''lab.png'' ''0.05'') ''resolution'' =
     Inr (resolution (meta_data_message demo_lab))"
proof -
  have a: "isl (get_double demo_yaml (YMap []) ''resolution'')"
    by (simp add: get_double_def)
  have b: "get_double demo_yaml (demo_map ''lab.png'' ''0.05'') ''resolution'' = Inr (1 / 20) \<and>
      \<not> field_error demo_yaml (demo_map ''lab.png'' ''0.05'') \<and>
      \<not> fatal (fst (read_mode demo_yaml (demo_map ''lab.png'' ''0.05'') initial_world))"
    by (simp add: field_error_def get_double_def get_int_def get_string_def get_double_at_def
        read_mode_def demo_map_def demo_fields_def demo_yaml_def)
  note t = resolution_is_read_not_checked
  from t [where L = demo_yaml and doc = "YMap []" and fname = "''maps/lab.yaml''"
       and w = initial_world, THEN conjunct1] a
  have 1: "fatal (fst (parse_declaration demo_yaml ''maps/lab.yaml'' (YMap []) initial_world))"
    by simp
  from t [where L = demo_yaml and doc = "demo_map ''lab.png'' ''0.05''" and r = "1 / 20"
       and fname = "''maps/lab.yaml''" and w = initial_world, THEN conjunct2, THEN conjunct1] b
  have 2: "\<exists>d. fst (parse_declaration demo_yaml ''maps/lab.yaml'' (demo_map ''lab.png'' ''0.05'')
                  initial_world) = Return d \<and> d_resolution d = 1 / 20"
    by simp
  show ?thesis using a b 1 2 demo_run
    by (simp add: demo_parse demo_env_def demo_lab_def demo_info_def)
qed

text \<open>
  The claim as written fails on the per-map file \<open>maps/neg.yaml\<close>, whose resolution is
  \<open>-0.05\<close>: parsing returns a declaration with that resolution, and with the image loader of
  the specification, which copies the resolution, the map is built and its metadata carries it.
\<close>

theorem negative_resolution_counterexample:
  "parse_declaration demo_yaml ''maps/neg.yaml'' (demo_map ''lab.png'' ''-0.05'') initial_world =
     (Return \<lparr>d_mapfname = ''maps/lab.png'', d_origin = (0, 0, 0), d_negate = 0,
              d_occ_th = 13 / 20, d_free_th = 49 / 250, d_mode = TRINARY,
              d_resolution = - (1 / 20)\<rparr>,
      emit (ROS_DEBUG ''The map does not contain a mode tag or it is invalid... assuming Trinary'')
        initial_world) \<and>
   fst (Map_ctor demo_env ''maps/neg.yaml'' ''floor1'' ''neg'' ''map'' initial_world) = Return demo_neg \<and>
   resolution (meta_data_message demo_neg) = - (1 / 20) \<and>
   resolution (meta_data_message demo_neg) < 0"
  by (simp add: demo_parse_neg demo_run_neg) (simp add: demo_neg_def)

text \<open>
  C6. The GetMap operation of any map returns \<open>true\<close> (it has no other exit), answers with
  the stored response, leaves the map as it was, and so answers a second call with the same
  response as the first.
\<close>

theorem mapCallback_returns_stored_map:
  "fst (mapCallback m req w) = (True, map_resp m, m) \<and>
   fst (mapCallback (snd (snd (fst (mapCallback m req w)))) req' w') = fst (mapCallback m req w)"
  by (simp add: mapCallback_def)

text \<open>
  C7. A map built for namespace \<open>ns\<close> and name \<open>m\<close> adds exactly five endpoint events to
  the trace, in this order: the service \<open>ns/m/static_map\<close>, the latched topic
  \<open>ns/m/map_metadata\<close> and its one publication, the latched topic \<open>ns/m/map\<close> and its one
  publication. The map keeps the three handles under these names.
\<close>

theorem three_endpoints_per_map:
  assumes "Map_ctor E fname ns m gf w = (Return mp, w')"
  shows "endpoints w' = endpoints w @
           [AdvertiseService (ns @ ''/'' @ m @ ''/static_map''),
            Advertise MapMetaData_msg (ns @ ''/'' @ m @ ''/map_metadata'') 1 True,
            PublishMetaData (ns @ ''/'' @ m @ ''/map_metadata'') (meta_data_message mp),
            Advertise OccupancyGrid_msg (ns @ ''/'' @ m @ ''/map'') 1 True,
            PublishGrid (ns @ ''/'' @ m @ ''/map'') (map_msg (map_resp mp))] \<and>
         service mp = ns @ ''/'' @ m @ ''/static_map'' \<and>
         metadata_pub mp = ns @ ''/'' @ m @ ''/map_metadata'' \<and>
         map_pub mp = ns @ ''/'' @ m @ ''/map''"
proof -
  from assms obtain resp w2 where "publish_map E ns m gf resp w2 = (Return mp, w')"
    by (rule Map_ctor_ReturnD)
  then have "service mp = ns @ ''/'' @ m @ ''/static_map'' \<and>
      metadata_pub mp = ns @ ''/'' @ m @ ''/map_metadata'' \<and> map_pub mp = ns @ ''/'' @ m @ ''/map''"
    by (rule publish_map_names)
  with Map_ctor_endpoints_Return [OF assms] show ?thesis
    by (simp add: map_endpoints_def)
qed

theorem three_endpoints_per_map_witness:
  "endpoints (snd (Map_ctor demo_env ''maps/lab.yaml'' ''floor1'' ''lab'' ''map'' initial_world)) =
     [AdvertiseService ''floor1/lab/static_map'',
      Advertise MapMetaData_msg ''floor1/lab/map_metadata'' 1 True,
      PublishMetaData ''floor1/lab/map_metadata'' demo_info,
      Advertise OccupancyGrid_msg ''floor1/lab/map'' 1 True,
      PublishGrid ''floor1/lab/map'' demo_grid] \<and>
   fst (Map_ctor demo_env ''maps/lab.yaml'' ''floor1'' ''lab'' ''map'' initial_world) = Return demo_lab"
  using three_endpoints_per_map [OF demo_run_pair] demo_run
  by (simp add: endpoints_def initial_world_def demo_lab_def)

text \<open>
  C8. The frame of a namespace is read from the key \<open>global_frame\<close>. A namespace record
  without that key makes the read throw, whatever other keys it has, and the process ends
  with \<open>-1\<close> without serving. For every map that is built, the text under \<open>global_frame\<close> is
  the frame id in the header of its grid.
\<close>

theorem frame_is_read_from_global_frame:
  "(files E cfg = Some (Inr doc) \<and> (first, YMap kvs) \<in> set (entries doc) \<and>
    map_of kvs ''global_frame'' = None \<longrightarrow>
      fst (namespace_body E first (YMap kvs) acc w0) = Throw (conversion_failure (yaml E)) \<and>
      fst (main E [prog, cfg] w) = - 1 \<and>
      (Spin \<in> set (trace (snd (main E [prog, cfg] w)))) = (Spin \<in> set (trace w))) \<and>
   (new_Map E first' second map_key map_value w1 = (Return m, w') \<longrightarrow>
      get_string (yaml E) second ''global_frame'' =
        Inr (frame_id (header (map_msg (map_resp m)))))"
proof (intro conjI impI)
  assume a: "files E cfg = Some (Inr doc) \<and> (first, YMap kvs) \<in> set (entries doc) \<and>
    map_of kvs ''global_frame'' = None"
  then have t: "\<And>acc w. fst (namespace_body E first (YMap kvs) acc w) =
      Throw (conversion_failure (yaml E))"
    by (simp add: namespace_body_no_frame)
  show "fst (namespace_body E first (YMap kvs) acc w0) = Throw (conversion_failure (yaml E))"
    by (rule t)
  have "fatal (fst (namespaces_loop E (entries doc) [] w))"
    using a by (intro namespaces_loop_fatal_body [where first = first and second = "YMap kvs"])
      (simp_all add: t)
  with a have "fatal (fst (MultimapServer_ctor E cfg w))"
    by (simp add: MultimapServer_ctor_def and_then_def open_yaml_def)
  from main_fatal [OF this, of prog]
  show "fst (main E [prog, cfg] w) = - 1"
    and "(Spin \<in> set (trace (snd (main E [prog, cfg] w)))) = (Spin \<in> set (trace w))"
    by simp_all
next
  assume "new_Map E first' second map_key map_value w1 = (Return m, w')"
  then show "get_string (yaml E) second ''global_frame'' =
        Inr (frame_id (header (map_msg (map_resp m))))"
    by (rule new_Map_frame)
qed

theorem frame_is_read_from_global_frame_witness:
  "map_of [(''global_frame_id'', YScalar ''map''),
           (''maps'', YMap [(''lab'', YScalar ''maps/lab.yaml'')])] ''global_frame'' = None \<and>
   fst (main demo_env [''multimap_server'', ''spec.yaml''] initial_world) = - 1 \<and>
   Spin \<notin> set (trace (snd (main demo_env [''multimap_server'', ''spec.yaml''] initial_world))) \<and>
   fst (new_Map demo_env (YScalar ''floor1'')
          (YMap [(''global_frame'', YScalar ''map''),
                 (''maps'', YMap [(''lab'', YScalar ''maps/lab.yaml'')])])
          (YScalar ''lab'') (YScalar ''maps/lab.yaml'') initial_world) = Return demo_lab \<and>
   frame_id (header (map_msg (map_resp demo_lab))) = ''map''"
proof -
  let ?kvs = "[(''global_frame_id'', YScalar ''map''),
               (''maps'', YMap [(''lab'', YScalar ''maps/lab.yaml'')])]"
  let ?second = "YMap [(''global_frame'', YScalar ''map''),
                       (''maps'', YMap [(''lab'', YScalar ''maps/lab.yaml'')])]"
  note t = frame_is_read_from_global_frame
  have a: "files demo_env ''spec.yaml'' = Some (Inr (demo_one ''global_frame_id'')) \<and>
      (YScalar ''floor1'', YMap ?kvs) \<in> set (entries (demo_one ''global_frame_id'')) \<and>
      map_of ?kvs ''global_frame'' = None"
    by (simp add: demo_env_def demo_one_def)
  from t [where E = demo_env and cfg = "''spec.yaml''" and doc = "demo_one ''global_frame_id''"
      and first = "YScalar ''floor1''" and kvs = ?kvs and w = initial_world
      and prog = "''multimap_server''", THEN conjunct1] a
  have 1: "fst (main demo_env [''multimap_server'', ''spec.yaml''] initial_world) = - 1 \<and>
     Spin \<notin> set (trace (snd (main demo_env [''multimap_server'', ''spec.yaml''] initial_world)))"
    by (simp add: initial_world_def)
  have b: "new_Map demo_env (YScalar ''floor1'') ?second (YScalar ''lab'')
             (YScalar ''maps/lab.yaml'') initial_world =
           (Return demo_lab, snd (new_Map demo_env (YScalar ''floor1'') ?second (YScalar ''lab'')
             (YScalar ''maps/lab.yaml'') initial_world))"
    using demo_new_Map by (simp add: prod_eq_iff)
  from t [where E = demo_env and first' = "YScalar ''floor1''" and second = ?second
      and map_key = "YScalar ''lab''" and map_value = "YScalar ''maps/lab.yaml''"
      and ?w1.0 = initial_world and m = demo_lab, THEN conjunct2, rule_format, OF b]
  have 2: "frame_id (header (map_msg (map_resp demo_lab))) = ''map''"
    by (simp add: get_string_def demo_env_def)
  from 1 2 demo_new_Map show ?thesis by simp
qed

text \<open>
  The claim as written fails on the sample files: \<open>spec.yaml\<close>, which names the frame
  under \<open>global_frame_id\<close>, ends the process with \<open>-1\<close> and no endpoint, and \<open>one.yaml\<close>, which
  has no \<open>global_frame_id\<close> and names the frame under \<open>global_frame\<close>, is served.
\<close>

theorem global_frame_id_counterexample:
  "fst (main demo_env [''multimap_server'', ''spec.yaml''] initial_world) = - 1 \<and>
   endpoints (snd (main demo_env [''multimap_server'', ''spec.yaml''] initial_world)) = [] \<and>
   fst (main demo_env [''multimap_server'', ''one.yaml''] initial_world) = 0 \<and>
   Spin \<in> set (trace (snd (main demo_env [''multimap_server'', ''one.yaml''] initial_world))) \<and>
   last (endpoints (snd (main demo_env [''multimap_server'', ''one.yaml''] initial_world))) =
     PublishGrid ''floor1/lab/map'' demo_grid \<and>
   frame_id (header demo_grid) = ''map''"
  using demo_main_one by (simp add: demo_main_spec endpoints_def demo_grid_def)

text \<open>
  C9. With an argument count other than two, \<open>main\<close> logs the usage text as an error and
  exits with \<open>-1\<close>. With a top-level file that does not open, it logs that the file could not
  be opened and exits with \<open>-1\<close>; with one that opens and does not load as YAML, the handler
  of \<open>main\<close> logs the exception and returns \<open>-1\<close>. In the last two cases the usage text is
  not printed. The status \<open>-1\<close> is seen as 255, which is not zero.
\<close>

theorem startup_errors:
  "(length argv \<noteq> 2 \<longrightarrow> main E argv w = (- 1, emit (ROS_ERROR USAGE) w)) \<and>
   (files E fname = None \<longrightarrow>
      main E [prog, fname] w =
        (- 1, emit (ROS_ERROR (''Multimap_server could not open '' @ fname @ ''.'')) w)) \<and>
   (files E fname = Some (Inl e) \<longrightarrow>
      main E [prog, fname] w =
        (- 1, emit (ROS_ERROR (''multimap_server exception: '' @ what (yaml E) e)) w)) \<and>
   exit_status (- 1) = 255"
  by (simp add: main_def MultimapServer_ctor_def and_then_def open_yaml_def exit_status_def)

theorem startup_errors_witness:
  "length [''multimap_server''] \<noteq> 2 \<and>
   main demo_env [''multimap_server''] initial_world =
     (- 1, \<lparr>trace = [ROS_ERROR USAGE], ticks = 0\<rparr>) \<and>
   files demo_env ''nofile'' = None \<and>
   main demo_env [''multimap_server'', ''nofile''] initial_world =
     (- 1, \<lparr>trace = [ROS_ERROR ''Multimap_server could not open nofile.''], ticks = 0\<rparr>) \<and>
   files unparsable_env ''cfg.yaml'' = Some (Inl ParserException) \<and>
   main unparsable_env [''multimap_server'', ''cfg.yaml''] initial_world =
     (- 1, \<lparr>trace = [ROS_ERROR ''multimap_server exception: yaml-cpp: error''], ticks = 0\<rparr>)"
  using startup_errors [where argv = "[''multimap_server'']" and E = demo_env and w = initial_world
      and fname = "''nofile''" and prog = "''multimap_server''"]
    startup_errors [where E = unparsable_env
      and fname = "''cfg.yaml''" and e = ParserException and w = initial_world
      and prog = "''multimap_server''"]
  by (simp add: unparsable_env_def demo_env_def demo_yaml_def emit_def initial_world_def)

text \<open>
  The claim as written fails for a top-level file that does not exist: the process exits
  with \<open>-1\<close> after one error line, and that line is not the usage text.
\<close>

theorem missing_file_no_usage_counterexample:
  "files demo_env ''nofile'' = None \<and>
   main demo_env [''multimap_server'', ''nofile''] initial_world =
     (- 1, \<lparr>trace = [ROS_ERROR ''Multimap_server could not open nofile.''], ticks = 0\<rparr>) \<and>
   ROS_ERROR USAGE \<notin> set (trace (snd (main demo_env [''multimap_server'', ''nofile''] initial_world)))"
  by (simp add: main_def MultimapServer_ctor_def and_then_def open_yaml_def demo_env_def emit_def
      initial_world_def USAGE_def)

text \<open>
  C10. For a map that was built, the cached metadata message is the \<open>info\<close> field of the
  cached grid, and the publications the constructor makes are two: that \<open>info\<close> on the
  metadata topic and the grid itself on the map topic, the grid being the one a GetMap call
  returns.
\<close>

theorem metadata_is_grid_info:
  assumes "Map_ctor E fname ns nm gf w = (Return m, w')"
  shows "meta_data_message m = info (map_msg (map_resp m)) \<and>
         publications w' = publications w @
           [PublishMetaData (metadata_pub m) (info (map_msg (fst (snd (fst (mapCallback m req w0)))))),
            PublishGrid (map_pub m) (map_msg (fst (snd (fst (mapCallback m req w0)))))]"
proof -
  from assms obtain resp w2 where p: "publish_map E ns nm gf resp w2 = (Return m, w')"
    by (rule Map_ctor_ReturnD)
  from publish_map_consistent [OF p] have c: "meta_data_message m = info (map_msg (map_resp m))"
    by simp
  from publish_map_names [OF p]
  have n: "metadata_pub m = ns @ ''/'' @ nm @ ''/map_metadata''" "map_pub m = ns @ ''/'' @ nm @ ''/map''"
    by simp_all
  have "publications w' = filter is_publication (endpoints w')"
    by (rule publications_endpoints)
  also have "\<dots> = publications w @ filter is_publication (map_endpoints ns nm m)"
    by (simp add: Map_ctor_endpoints_Return [OF assms] publications_endpoints)
  finally show ?thesis using c n
    by (simp add: map_endpoints_def mapCallback_def)
qed

theorem metadata_is_grid_info_witness:
  "publications (snd (Map_ctor demo_env ''maps/lab.yaml'' ''floor1'' ''lab'' ''map'' initial_world)) =
     [PublishMetaData ''floor1/lab/map_metadata'' demo_info,
      PublishGrid ''floor1/lab/map'' demo_grid] \<and>
   info demo_grid = demo_info \<and>
   fst (Map_ctor demo_env ''maps/lab.yaml'' ''floor1'' ''lab'' ''map'' initial_world) = Return demo_lab"
  using metadata_is_grid_info [OF demo_run_pair, of "()" initial_world] demo_run
  by (simp add: publications_def initial_world_def demo_lab_def mapCallback_def demo_grid_def)

end
